theory Spec2Isabelle
  imports Complex_Main
begin

section \<open>The PLE scan controller \<open>CounterAndScanner\<close> (plescanner.py)\<close>

text \<open>
  A shallow embedding of the class \<open>CounterAndScanner\<close>. Every method is a function
  from the controller's state to a pair: what the call gives back (its value, or the
  exception it raises) and the state it leaves behind. The state is returned in both
  cases, because a Python exception does not undo the assignments made before it.

  Positions and voltages are Python floats in the source. A finite float is modelled
  by the real number it stands for; infinities, NaN and the sign of zero are outside
  this model. The arithmetic of \<open>np.arange\<close> is rounded as binary64 arithmetic
  rounds it. The one sum of \<open>move_v\<close> is written as the exact sum, which is the
  float sum wherever that sum is a float.
\<close>

subsection \<open>Exceptions\<close>

text \<open>
  \<open>ValueError\<close> is what the actuator raises for a position outside its allowed range
  (the spec's OutOfRangeError; it is what \<open>move_v\<close> and \<open>go_to_v\<close> catch) and what
  \<open>time.sleep\<close> raises for a negative length. \<open>AttributeError\<close> is a read of an
  attribute that was never assigned, or a method call on \<open>None\<close>.
  \<open>ZeroDivisionError\<close> is the division by a zero step in \<open>np.arange\<close>, and
  \<open>OverflowError\<close> a length of \<open>np.arange\<close> or of \<open>time.sleep\<close> beyond 64 bits.
\<close>

datatype error = AttributeError | ValueError | ZeroDivisionError | OverflowError

type_synonym 'a result = "error + 'a"

subsection \<open>Binary floating point\<close>

text \<open>
  A Python float is an IEEE 754 binary64 number. \<open>binade x\<close> is the largest power of
  two that is at most \<open>\<bar>x\<bar>\<close> (1 for \<open>x = 0\<close>), found by halving or doubling;
  \<open>ulp x\<close> is the spacing of the floats around \<open>x\<close>: 52 binary places below the
  binade, and \<open>1 / 2 ^ 1074\<close> in the subnormal range. \<open>double x\<close> is the float nearest to
  \<open>x\<close>, the one with the even significand when two are equally near. Results beyond
  the largest float, where Python gives an infinity, are outside the model.
\<close>

function binade_hi :: "real \<Rightarrow> real" where
  "binade_hi y = (if 2 \<le> y then 2 * binade_hi (y / 2) else 1)"
  by pat_completeness auto
termination
proof (relation "measure (\<lambda>y. nat \<lceil>y\<rceil>)")
  show "wf (measure (\<lambda>y::real. nat \<lceil>y\<rceil>))"
    by simp
next
  fix y :: real
  assume "2 \<le> y"
  then have "\<lceil>y / 2\<rceil> < \<lceil>y\<rceil>" and "0 < \<lceil>y\<rceil>"
    by linarith+
  then show "(y / 2, y) \<in> measure (\<lambda>y. nat \<lceil>y\<rceil>)"
    by simp
qed

function binade_lo :: "real \<Rightarrow> real" where
  "binade_lo y = (if 0 < y \<and> y < 1 then binade_lo (2 * y) / 2 else 1)"
  by pat_completeness auto
termination
proof (relation "measure (\<lambda>y. nat \<lceil>1 / y\<rceil>)")
  show "wf (measure (\<lambda>y::real. nat \<lceil>1 / y\<rceil>))"
    by simp
next
  fix y :: real
  assume y: "0 < y \<and> y < 1"
  define z where "z = 1 / y"
  have z: "1 < z"
    using y by (simp add: z_def)
  have up: "z \<le> of_int \<lceil>z\<rceil>"
    by (rule le_of_int_ceiling)
  have pos: "1 < \<lceil>z\<rceil>"
    using z by (simp add: less_ceiling_iff)
  then have two: "(2::real) \<le> of_int \<lceil>z\<rceil>"
    by linarith
  have "z / 2 \<le> of_int \<lceil>z\<rceil> - 1"
    using up two by linarith
  then have "z / 2 \<le> of_int (\<lceil>z\<rceil> - 1)"
    by (simp only: of_int_diff of_int_1)
  then have le: "\<lceil>z / 2\<rceil> \<le> \<lceil>z\<rceil> - 1"
    by (simp only: ceiling_le_iff)
  have half: "\<lceil>1 / (2 * y)\<rceil> = \<lceil>z / 2\<rceil>"
    by (simp add: z_def mult.commute)
  have "nat \<lceil>1 / (2 * y)\<rceil> < nat \<lceil>z\<rceil>"
    unfolding half using le pos by linarith
  then show "(2 * y, y) \<in> measure (\<lambda>y. nat \<lceil>1 / y\<rceil>)"
    by (simp add: z_def)
qed

declare binade_hi.simps [simp del] binade_lo.simps [simp del]

definition binade :: "real \<Rightarrow> real" where
  "binade x = (if 1 \<le> \<bar>x\<bar> then binade_hi \<bar>x\<bar> else binade_lo \<bar>x\<bar>)"

definition ulp :: "real \<Rightarrow> real" where
  "ulp x = max (binade x / 2 ^ 52) (1 / 2 ^ 1074)"

definition round_half_even :: "real \<Rightarrow> int" where
  "round_half_even q =
     (let n = \<lfloor>q\<rfloor>; r = q - of_int n
      in if r < 1 / 2 then n
         else if 1 / 2 < r then n + 1
         else if even n then n else n + 1)"

definition double :: "real \<Rightarrow> real" where
  "double x = of_int (round_half_even (x / ulp x)) * ulp x"

text \<open>The float operations: the exact result, rounded once.\<close>

definition fadd :: "real \<Rightarrow> real \<Rightarrow> real" where
  "fadd x y = double (x + y)"

definition fsub :: "real \<Rightarrow> real \<Rightarrow> real" where
  "fsub x y = double (x - y)"

definition fmul :: "real \<Rightarrow> real \<Rightarrow> real" where
  "fmul x y = double (x * y)"

definition fdiv :: "real \<Rightarrow> real \<Rightarrow> real" where
  "fdiv x y = double (x / y)"

subsection \<open>The rate counter\<close>

text \<open>
  The rate counter is hardware behind a driver that is not part of plescanner.py. It is
  taken as a parameter: \<open>readout rc k n v\<close> is what its \<open>k\<close>-th call of
  \<open>sample_counts(n)\<close> returns (a pair of counts and clock samples) when the actuator
  stands at the voltage \<open>v\<close> at that moment (\<open>None\<close> when there is no actuator),
  and \<open>rate_of rc\<close> is its conversion \<open>sample_count_rate\<close>. Nothing is assumed about
  either.
\<close>

type_synonym counts = "int \<times> int"

record sampler =
  sampling :: bool
  closed :: bool
  num_data_samples_per_batch :: int
  calls :: nat
  readout :: "nat \<Rightarrow> int \<Rightarrow> real option \<Rightarrow> counts"
  rate_of :: "counts \<Rightarrow> real"

definition rc_start :: "sampler \<Rightarrow> sampler" where
  "rc_start rc = rc\<lparr>sampling := True\<rparr>"

definition rc_stop :: "sampler \<Rightarrow> sampler" where
  "rc_stop rc = rc\<lparr>sampling := False\<rparr>"

definition rc_close :: "sampler \<Rightarrow> sampler" where
  "rc_close rc = rc\<lparr>closed := True\<rparr>"

definition rc_sample_counts :: "sampler \<Rightarrow> int \<Rightarrow> real option \<Rightarrow> counts \<times> sampler" where
  "rc_sample_counts rc n v = (readout rc (calls rc) n v, rc\<lparr>calls := Suc (calls rc)\<rparr>)"

definition rc_sample_count_rate :: "sampler \<Rightarrow> counts \<Rightarrow> real" where
  "rc_sample_count_rate rc d = rate_of rc d"

subsection \<open>The wavelength controller (position actuator)\<close>

text \<open>
  The actuator's driver is not part of plescanner.py either. \<open>commanded\<close> is the log of
  the targets of every \<open>go_to_voltage\<close>/\<open>go_to_position\<close> call, oldest first,
  accepted or not; \<open>current_voltage\<close> is the last accepted target. \<open>truthy\<close> is the
  object's Python truth value, which the guards \<open>if self.wavelength_controller:\<close> test.
\<close>

record actuator =
  truthy :: bool
  minimum_allowed_position :: real
  maximum_allowed_position :: real
  commanded :: "real list"
  current_voltage :: real

text \<open>
  Modelled from the spec: the actuator's method \<open>check_allowed_position\<close>, which
  "fails with OutOfRangeError if value outside bounds", the bounds being the actuator's
  \<open>minimum_allowed_position\<close> and \<open>maximum_allowed_position\<close>.
\<close>

definition check_allowed_position :: "actuator \<Rightarrow> real \<Rightarrow> unit result" where
  "check_allowed_position a v =
     (if v < minimum_allowed_position a \<or> maximum_allowed_position a < v
      then Inl ValueError else Inr ())"

text \<open>
  Modelled from the spec: the actuator's methods \<open>go_to_voltage\<close> and
  \<open>go_to_position\<close>, which command "a move" and fail "with a range error if the target
  is invalid", and \<open>get_current_voltage\<close>, the read-back.
\<close>

definition go_to_voltage :: "actuator \<Rightarrow> real \<Rightarrow> unit result \<times> actuator" where
  "go_to_voltage a v =
     (let a' = a\<lparr>commanded := commanded a @ [v]\<rparr>
      in case check_allowed_position a v of
           Inl e \<Rightarrow> (Inl e, a')
         | Inr _ \<Rightarrow> (Inr (), a'\<lparr>current_voltage := v\<rparr>))"

definition go_to_position :: "actuator \<Rightarrow> real \<Rightarrow> unit result \<times> actuator" where
  "go_to_position a v = go_to_voltage a v"

definition get_current_voltage :: "actuator \<Rightarrow> real" where
  "get_current_voltage a = current_voltage a"

subsection \<open>The controller's state\<close>

text \<open>
  The fields are those \<open>__init__\<close> assigns, in its order, and \<open>current_v\<close>, which
  \<open>__init__\<close> does not assign: \<open>None\<close> stands for the attribute that does not exist
  yet. \<open>wavelength_controller = None\<close> is Python's \<open>None\<close>. The field
  \<open>step_size\<close> is the attribute \<open>_step_size\<close> behind the property of that name.
\<close>

record controller =
  running :: bool
  current_t :: int
  vmin :: real
  vmax :: real
  tmax :: int
  step_size :: real
  raster_line_pause :: real
  scanned_raw_counts :: "counts list list"
  scanned_count_rate :: "real list list"
  wavelength_controller :: "actuator option"
  rate_counter :: sampler
  num_daq_batches :: int
  current_v :: "real option"

text \<open>
  \<open>__init__\<close>: reading the allowed positions of \<open>None\<close> raises. The literal
  \<open>0.150\<close> is the float nearest to it; \<open>0.5\<close> is a float.
\<close>

definition init :: "sampler \<Rightarrow> actuator option \<Rightarrow> controller result" where
  "init rc wc =
     (case wc of
        None \<Rightarrow> Inl AttributeError
      | Some a \<Rightarrow>
          Inr \<lparr>running = False, current_t = 0,
               vmin = minimum_allowed_position a,
               vmax = maximum_allowed_position a,
               tmax = 100, step_size = 1 / 2, raster_line_pause = double (150 / 1000),
               scanned_raw_counts = [], scanned_count_rate = [],
               wavelength_controller = wc, rate_counter = rc,
               num_daq_batches = 1, current_v = None\<rparr>)"

text \<open>The guard \<open>if self.wavelength_controller:\<close>.\<close>

definition present :: "actuator option \<Rightarrow> bool" where
  "present wc = (case wc of None \<Rightarrow> False | Some a \<Rightarrow> truthy a)"

text \<open>
  A method call \<open>self.wavelength_controller.m(v)\<close>: an attribute error on \<open>None\<close>,
  otherwise the actuator's method, whose new state is stored back.
\<close>

definition wc_call ::
  "(actuator \<Rightarrow> real \<Rightarrow> unit result \<times> actuator) \<Rightarrow> real \<Rightarrow> controller
     \<Rightarrow> unit result \<times> controller" where
  "wc_call m v s =
     (case wavelength_controller s of
        None \<Rightarrow> (Inl AttributeError, s)
      | Some a \<Rightarrow> (case m a v of (r, a') \<Rightarrow> (r, s\<lparr>wavelength_controller := Some a'\<rparr>)))"

definition wc_check :: "real \<Rightarrow> controller \<Rightarrow> unit result" where
  "wc_check v s =
     (case wavelength_controller s of
        None \<Rightarrow> Inl AttributeError
      | Some a \<Rightarrow> check_allowed_position a v)"

subsection \<open>The methods\<close>

definition stop :: "controller \<Rightarrow> unit result \<times> controller" where
  "stop s = (Inr (), s\<lparr>rate_counter := rc_stop (rate_counter s), running := False\<rparr>)"

definition start :: "controller \<Rightarrow> unit result \<times> controller" where
  "start s = (Inr (), s\<lparr>running := True, rate_counter := rc_start (rate_counter s)\<rparr>)"

definition set_to_starting_position :: "controller \<Rightarrow> unit result \<times> controller" where
  "set_to_starting_position s =
     (let s1 = s\<lparr>current_v := Some (vmin s)\<rparr>
      in if present (wavelength_controller s1)
         then wc_call go_to_voltage (vmin s1) s1
         else (Inr (), s1))"

definition close :: "controller \<Rightarrow> unit result \<times> controller" where
  "close s = (Inr (), s\<lparr>rate_counter := rc_close (rate_counter s)\<rparr>)"

definition set_num_data_samples_per_batch :: "int \<Rightarrow> controller \<Rightarrow> unit result \<times> controller" where
  "set_num_data_samples_per_batch n s =
     (Inr (), s\<lparr>rate_counter := (rate_counter s)\<lparr>num_data_samples_per_batch := n\<rparr>\<rparr>)"

text \<open>
  \<open>sample_counts\<close> passes the call on to the rate counter. The hardware answers
  for the voltage at which the actuator stands when the call is made.
\<close>

definition sample_counts :: "controller \<Rightarrow> counts result \<times> controller" where
  "sample_counts s =
     (case rc_sample_counts (rate_counter s) (num_daq_batches s)
             (map_option current_voltage (wavelength_controller s)) of
        (d, rc') \<Rightarrow> (Inr d, s\<lparr>rate_counter := rc'\<rparr>))"

definition sample_count_rate :: "counts option \<Rightarrow> controller \<Rightarrow> real result \<times> controller" where
  "sample_count_rate data_counts s =
     (case data_counts of
        None \<Rightarrow>
          (case sample_counts s of
             (Inl e, s') \<Rightarrow> (Inl e, s')
           | (Inr d, s') \<Rightarrow> (Inr (rc_sample_count_rate (rate_counter s') d), s'))
      | Some d \<Rightarrow> (Inr (rc_sample_count_rate (rate_counter s) d), s))"

definition set_scan_range :: "real \<Rightarrow> real \<Rightarrow> controller \<Rightarrow> unit result \<times> controller" where
  "set_scan_range vmin' vmax' s =
     (if present (wavelength_controller s)
      then (case wc_check vmin' s of
              Inl e \<Rightarrow> (Inl e, s)
            | Inr _ \<Rightarrow>
                (case wc_check vmax' s of
                   Inl e \<Rightarrow> (Inl e, s)
                 | Inr _ \<Rightarrow> (Inr (), s\<lparr>vmin := vmin', vmax := vmax'\<rparr>)))
      else (Inr (), s\<lparr>vmin := vmin', vmax := vmax'\<rparr>))"

definition get_scan_range :: "controller \<Rightarrow> (real \<times> real) result \<times> controller" where
  "get_scan_range s = (Inr (vmin s, vmax s), s)"

definition get_completed_scan_range ::
  "controller \<Rightarrow> (real \<times> real \<times> real) result \<times> controller" where
  "get_completed_scan_range s =
     (case current_v s of
        None \<Rightarrow> (Inl AttributeError, s)
      | Some v \<Rightarrow> (Inr (vmin s, vmax s, v), s))"

definition still_scanning :: "controller \<Rightarrow> bool result \<times> controller" where
  "still_scanning s =
     (if running s = False then (Inr False, s)
      else if current_t s \<le> tmax s then (Inr True, s)
      else (Inr False, s\<lparr>running := False\<rparr>))"

text \<open>
  \<open>move_v\<close>: the augmented assignment reads \<open>current_v\<close> first. The handler catches
  \<open>ValueError\<close> only.
\<close>

definition move_v :: "controller \<Rightarrow> unit result \<times> controller" where
  "move_v s =
     (case current_v s of
        None \<Rightarrow> (Inl AttributeError, s)
      | Some v \<Rightarrow>
          (let s1 = s\<lparr>current_v := Some (v + step_size s)\<rparr>
           in if present (wavelength_controller s1) \<and> v + step_size s \<le> vmax s1
              then (case wc_call go_to_position (v + step_size s) s1 of
                      (Inl ValueError, s2) \<Rightarrow> (Inr (), s2)
                    | (Inl e, s2) \<Rightarrow> (Inl e, s2)
                    | (Inr _, s2) \<Rightarrow> (Inr (), s2))
              else (Inr (), s1)))"

definition go_to_v :: "real \<Rightarrow> controller \<Rightarrow> unit result \<times> controller" where
  "go_to_v desired_voltage s =
     (if present (wavelength_controller s) \<and> desired_voltage \<le> vmax s
         \<and> desired_voltage \<ge> vmin s
      then (case wc_call go_to_voltage desired_voltage s of
              (Inl ValueError, s2) \<Rightarrow> (Inr (), s2)
            | (Inl e, s2) \<Rightarrow> (Inl e, s2)
            | (Inr _, s2) \<Rightarrow> (Inr (), s2))
      else (Inr (), s))"

text \<open>
  \<open>np.arange(start, stop, step)\<close> on Python floats, as numpy computes it. The length
  is the ceiling of the float quotient of the float difference \<open>stop - start\<close> by
  \<open>step\<close>; a zero step is Python's division by zero; a quotient that underflows to
  zero counts as 1 or 0 by its sign; a length beyond 64 bits is an overflow error. The
  first value is \<open>start\<close>, the second the float sum \<open>start + step\<close>, and the
  \<open>i\<close>-th is \<open>start + i * delta\<close> in float arithmetic (product first, without a
  fused multiply-add), \<open>delta\<close> being the float difference of the first two. An
  array too long for the machine's memory is outside the model.
\<close>

definition arange :: "real \<Rightarrow> real \<Rightarrow> real \<Rightarrow> real list result" where
  "arange start' stop' step =
     (if step = 0 then Inl ZeroDivisionError
      else
        (let diff = fsub stop' start';
             val = fdiv diff step;
             len = (if val = 0 \<and> diff \<noteq> 0
                    then (if diff / step < 0 then 0 else 1)
                    else \<lceil>val\<rceil>)
         in if len < - (2 ^ 63) \<or> 2 ^ 63 < len then Inl OverflowError
            else if len \<le> 0 then Inr []
            else
              (let next = fadd start' step;
                   delta = fsub next start'
               in Inr (map (\<lambda>i. if i = 0 then start'
                                  else if i = 1 then next
                                  else fadd start' (fmul (real i) delta))
                         [0 ..< nat len]))))"

text \<open>
  \<open>time.sleep(secs)\<close>: a negative length is a value error, and a length whose
  nanoseconds do not fit the 64-bit time of C is an overflow error. The wait itself
  changes nothing.
\<close>

definition sleep :: "real \<Rightarrow> unit result" where
  "sleep secs =
     (if secs < 0 then Inl ValueError
      else if 2 ^ 63 \<le> fmul secs (10 ^ 9) then Inl OverflowError
      else Inr ())"

text \<open>
  The body of the \<open>for\<close> loop of \<open>scan_axis\<close>, over the values still to visit, with
  the list \<open>raw_counts\<close> built so far. The read-back \<open>get_current_voltage\<close> is only
  logged.
\<close>

fun scan_loop ::
  "real list \<Rightarrow> counts list \<Rightarrow> controller \<Rightarrow> counts list result \<times> controller" where
  "scan_loop [] raw_counts s = (Inr raw_counts, s)"
| "scan_loop (val # vals) raw_counts s =
     (case (if present (wavelength_controller s)
            then wc_call go_to_voltage val s else (Inr (), s)) of
        (Inl e, s1) \<Rightarrow> (Inl e, s1)
      | (Inr _, s1) \<Rightarrow>
          (case sample_counts s1 of
             (Inl e, s2) \<Rightarrow> (Inl e, s2)
           | (Inr d, s2) \<Rightarrow> scan_loop vals (raw_counts @ [d]) s2))"

text \<open>
  The body of \<open>scan_axis\<close>, with \<open>np.arange\<close> as a parameter. The first move, to
  \<open>min\<close>, is not guarded by the presence test. The axis name is always \<open>'v'\<close>,
  the keyword of \<open>go_to_voltage\<close>.
\<close>

definition scan_axis_with ::
  "(real \<Rightarrow> real \<Rightarrow> real \<Rightarrow> real list result) \<Rightarrow> real \<Rightarrow> real \<Rightarrow> real \<Rightarrow> controller
     \<Rightarrow> counts list result \<times> controller" where
  "scan_axis_with np_arange min' max' step s =
     (case wc_call go_to_voltage min' s of
        (Inl e, s1) \<Rightarrow> (Inl e, s1)
      | (Inr _, s1) \<Rightarrow>
          (case sleep (raster_line_pause s1) of
             Inl e \<Rightarrow> (Inl e, s1)
           | Inr _ \<Rightarrow>
               (case np_arange min' max' step of
                  Inl e \<Rightarrow> (Inl e, s1)
                | Inr vals \<Rightarrow> scan_loop vals [] s1)))"

text \<open>\<open>scan_axis\<close> itself calls \<open>np.arange\<close>.\<close>

definition scan_axis ::
  "real \<Rightarrow> real \<Rightarrow> real \<Rightarrow> controller \<Rightarrow> counts list result \<times> controller" where
  "scan_axis min' max' step s = scan_axis_with arange min' max' step s"

text \<open>The list comprehension of \<open>scan_v\<close>: one \<open>sample_count_rate\<close> per raw count.\<close>

fun count_rates :: "counts list \<Rightarrow> controller \<Rightarrow> real list result \<times> controller" where
  "count_rates [] s = (Inr [], s)"
| "count_rates (d # ds) s =
     (case sample_count_rate (Some d) s of
        (Inl e, s1) \<Rightarrow> (Inl e, s1)
      | (Inr r, s1) \<Rightarrow>
          (case count_rates ds s1 of
             (Inl e, s2) \<Rightarrow> (Inl e, s2)
           | (Inr rs, s2) \<Rightarrow> (Inr (r # rs), s2)))"

definition scan_v :: "controller \<Rightarrow> unit result \<times> controller" where
  "scan_v s =
     (case scan_axis (vmin s) (vmax s) (step_size s) s of
        (Inl e, s1) \<Rightarrow> (Inl e, s1)
      | (Inr raw_counts_for_axis, s1) \<Rightarrow>
          (let s2 = s1\<lparr>scanned_raw_counts := scanned_raw_counts s1 @ [raw_counts_for_axis]\<rparr>
           in case count_rates raw_counts_for_axis s2 of
                (Inl e, s3) \<Rightarrow> (Inl e, s3)
              | (Inr rates, s3) \<Rightarrow>
                  (let s4 = s3\<lparr>scanned_count_rate := scanned_count_rate s3 @ [rates]\<rparr>
                   in (Inr (), s4\<lparr>current_t := current_t s4 + 1\<rparr>))))"

definition reset :: "controller \<Rightarrow> unit result \<times> controller" where
  "reset s = (Inr (), s\<lparr>scanned_raw_counts := [], scanned_count_rate := []\<rparr>)"

definition configure_view :: "controller \<Rightarrow> unit result \<times> controller" where
  "configure_view s = (Inr (), s)"

definition get_step_size :: "controller \<Rightarrow> real result \<times> controller" where
  "get_step_size s = (Inr (step_size s), s)"

definition set_step_size :: "real \<Rightarrow> controller \<Rightarrow> unit result \<times> controller" where
  "set_step_size val s = (Inr (), s\<lparr>step_size := val\<rparr>)"

subsection \<open>Drivers: repeated sweeps and sequences of calls\<close>

text \<open>
  \<open>run_sweeps n\<close> calls \<open>scan_v\<close> \<open>n\<close> times and stops at the first call that
  raises, as a caller without a handler does.
\<close>

fun run_sweeps :: "nat \<Rightarrow> controller \<Rightarrow> unit result \<times> controller" where
  "run_sweeps 0 s = (Inr (), s)"
| "run_sweeps (Suc n) s =
     (case scan_v s of
        (Inl e, s') \<Rightarrow> (Inl e, s')
      | (Inr _, s') \<Rightarrow> run_sweeps n s')"

text \<open>
  The methods of the class as values, and the state a call leaves behind, whether it
  returns or raises. \<open>run\<close> makes the calls of a list in order, from left to right.
\<close>

datatype call =
    Stop | Start | SetToStartingPosition | Close
  | SetNumDataSamplesPerBatch int | SampleCounts | SampleCountRate "counts option"
  | SetScanRange real real | GetScanRange | GetCompletedScanRange | StillScanning
  | MoveV | GoToV real | ScanV | ScanAxis real real real | Reset | ConfigureView
  | GetStepSize | SetStepSize real

fun exec :: "call \<Rightarrow> controller \<Rightarrow> controller" where
  "exec Stop s = snd (stop s)"
| "exec Start s = snd (start s)"
| "exec SetToStartingPosition s = snd (set_to_starting_position s)"
| "exec Close s = snd (close s)"
| "exec (SetNumDataSamplesPerBatch n) s = snd (set_num_data_samples_per_batch n s)"
| "exec SampleCounts s = snd (sample_counts s)"
| "exec (SampleCountRate d) s = snd (sample_count_rate d s)"
| "exec (SetScanRange a b) s = snd (set_scan_range a b s)"
| "exec GetScanRange s = snd (get_scan_range s)"
| "exec GetCompletedScanRange s = snd (get_completed_scan_range s)"
| "exec StillScanning s = snd (still_scanning s)"
| "exec MoveV s = snd (move_v s)"
| "exec (GoToV v) s = snd (go_to_v v s)"
| "exec ScanV s = snd (scan_v s)"
| "exec (ScanAxis a b c) s = snd (scan_axis a b c s)"
| "exec Reset s = snd (reset s)"
| "exec ConfigureView s = snd (configure_view s)"
| "exec GetStepSize s = snd (get_step_size s)"
| "exec (SetStepSize v) s = snd (set_step_size v s)"

fun run :: "call list \<Rightarrow> controller \<Rightarrow> controller" where
  "run [] s = s"
| "run (c # cs) s = run cs (exec c s)"

text \<open>
  A controller on which a sweep cannot raise: the pause is one that \<open>time.sleep\<close>
  accepts, the actuator is present, and it accepts \<open>vmin\<close> and every value that
  \<open>np.arange\<close> returns for the scan range and the step.
\<close>

definition sweepable :: "controller \<Rightarrow> bool" where
  "sweepable s =
     (sleep (raster_line_pause s) = Inr () \<and>
      (case wavelength_controller s of
         None \<Rightarrow> False
       | Some a \<Rightarrow>
           truthy a \<and> check_allowed_position a (vmin s) = Inr ()
           \<and> (case arange (vmin s) (vmax s) (step_size s) of
                Inl e \<Rightarrow> False
              | Inr vals \<Rightarrow> list_all (\<lambda>v. check_allowed_position a v = Inr ()) vals)))"

subsection \<open>Example devices\<close>

text \<open>
  A stub rate counter whose sample at the voltage \<open>v\<close> is the pair of
  \<open>\<lfloor>2 * v\<rfloor>\<close> and the number of batches, a stub actuator that allows the positions
  from 0 to 2, and the controller that \<open>__init__\<close> builds from them.
\<close>

definition stub_sampler :: sampler where
  "stub_sampler =
     \<lparr>sampling = False, closed = False, num_data_samples_per_batch = 1, calls = 0,
      readout = (\<lambda>k n v. (case v of None \<Rightarrow> - 1 | Some x \<Rightarrow> \<lfloor>2 * x\<rfloor>, n)),
      rate_of = (\<lambda>d. real_of_int (fst d))\<rparr>"

definition stub_actuator :: actuator where
  "stub_actuator =
     \<lparr>truthy = True, minimum_allowed_position = 0, maximum_allowed_position = 2,
      commanded = [], current_voltage = 0\<rparr>"

definition stub_controller :: controller where
  "stub_controller =
     \<lparr>running = False, current_t = 0, vmin = 0, vmax = 2, tmax = 100,
      step_size = 1 / 2, raster_line_pause = double (150 / 1000),
      scanned_raw_counts = [], scanned_count_rate = [],
      wavelength_controller = Some stub_actuator, rate_counter = stub_sampler,
      num_daq_batches = 1, current_v = None\<rparr>"

text \<open>An actuator that allows the positions from -10 to 10.\<close>

definition wide_actuator :: actuator where
  "wide_actuator =
     \<lparr>truthy = True, minimum_allowed_position = - 10, maximum_allowed_position = 10,
      commanded = [], current_voltage = 0\<rparr>"

definition wide_controller :: controller where
  "wide_controller =
     \<lparr>running = False, current_t = 0, vmin = - 10, vmax = 10, tmax = 100,
      step_size = 1 / 2, raster_line_pause = double (150 / 1000),
      scanned_raw_counts = [], scanned_count_rate = [],
      wavelength_controller = Some wide_actuator, rate_counter = stub_sampler,
      num_daq_batches = 1, current_v = None\<rparr>"

section \<open>Properties\<close>

subsection \<open>The actuator\<close>

lemma accepted_iff:
  "check_allowed_position a v = Inr () \<longleftrightarrow>
     minimum_allowed_position a \<le> v \<and> v \<le> maximum_allowed_position a"
  by (auto simp: check_allowed_position_def)

lemma go_to_voltage_accepted:
  "check_allowed_position a v = Inr () \<Longrightarrow>
     go_to_voltage a v = (Inr (), a\<lparr>commanded := commanded a @ [v], current_voltage := v\<rparr>)"
  by (simp add: go_to_voltage_def Let_def)

lemma init_stub: "init stub_sampler (Some stub_actuator) = Inr stub_controller"
  by (simp add: init_def stub_controller_def stub_actuator_def)

subsection \<open>The scan range\<close>

text \<open>
  C2. With a present actuator, when the actuator's check rejects either bound,
  \<open>set_scan_range\<close> raises the actuator's range error to its caller and leaves the
  controller, and so the stored scan range, as it was.
\<close>

theorem set_scan_range_rejected:
  assumes "wavelength_controller s = Some a" and "truthy a"
    and "check_allowed_position a vmin' = Inl ValueError
         \<or> check_allowed_position a vmax' = Inl ValueError"
  shows "set_scan_range vmin' vmax' s = (Inl ValueError, s)
     \<and> get_scan_range (snd (set_scan_range vmin' vmax' s)) = (Inr (vmin s, vmax s), s)"
  using assms
  by (auto simp: set_scan_range_def wc_check_def present_def check_allowed_position_def
      get_scan_range_def split: sum.splits if_splits)

theorem set_scan_range_rejected_witness:
  "set_scan_range 1 3 stub_controller = (Inl ValueError, stub_controller)
   \<and> set_scan_range (- 1) 1 stub_controller = (Inl ValueError, stub_controller)
   \<and> get_scan_range (snd (set_scan_range 1 3 stub_controller)) = (Inr (0, 2), stub_controller)"
  using set_scan_range_rejected [of stub_controller stub_actuator 1 3]
    set_scan_range_rejected [of stub_controller stub_actuator "- 1" 1]
  by (auto simp: stub_controller_def stub_actuator_def check_allowed_position_def)

text \<open>
  C3. When the actuator's check accepts both bounds, \<open>set_scan_range\<close> returns
  normally and \<open>get_scan_range\<close> then returns exactly the pair that was set.
\<close>

theorem set_then_get_scan_range:
  assumes "wavelength_controller s = Some a"
    and "check_allowed_position a vmin' = Inr ()"
    and "check_allowed_position a vmax' = Inr ()"
  shows "set_scan_range vmin' vmax' s = (Inr (), s\<lparr>vmin := vmin', vmax := vmax'\<rparr>)
     \<and> fst (get_scan_range (snd (set_scan_range vmin' vmax' s))) = Inr (vmin', vmax')"
  using assms
  by (simp add: set_scan_range_def wc_check_def get_scan_range_def)

theorem set_then_get_scan_range_witness:
  "fst (set_scan_range (1 / 2) 1 stub_controller) = Inr ()
   \<and> fst (get_scan_range (snd (set_scan_range (1 / 2) 1 stub_controller))) = Inr (1 / 2, 1)"
  using set_then_get_scan_range [of stub_controller stub_actuator "1 / 2" 1]
  by (auto simp: stub_controller_def stub_actuator_def check_allowed_position_def)

text \<open>
  C9. With an absent (falsy) actuator \<open>set_scan_range\<close> validates nothing: for any
  two values, also with the minimum above the maximum, it returns normally and has
  overwritten the stored range with them.
\<close>

theorem set_scan_range_unchecked:
  assumes "\<not> present (wavelength_controller s)"
  shows "set_scan_range vmin' vmax' s = (Inr (), s\<lparr>vmin := vmin', vmax := vmax'\<rparr>)"
  using assms by (simp add: set_scan_range_def)

theorem set_scan_range_unchecked_witness:
  "init stub_sampler (Some (stub_actuator\<lparr>truthy := False\<rparr>))
     = Inr (stub_controller\<lparr>wavelength_controller := Some (stub_actuator\<lparr>truthy := False\<rparr>)\<rparr>)
   \<and> set_scan_range 5 (- 5)
        (stub_controller\<lparr>wavelength_controller := Some (stub_actuator\<lparr>truthy := False\<rparr>)\<rparr>)
     = (Inr (), stub_controller\<lparr>wavelength_controller := Some (stub_actuator\<lparr>truthy := False\<rparr>),
                                 vmin := 5, vmax := - 5\<rparr>)
   \<and> set_scan_range 5 (- 5) (stub_controller\<lparr>wavelength_controller := None\<rparr>)
     = (Inr (), stub_controller\<lparr>wavelength_controller := None, vmin := 5, vmax := - 5\<rparr>)"
  using set_scan_range_unchecked
      [of "stub_controller\<lparr>wavelength_controller := Some (stub_actuator\<lparr>truthy := False\<rparr>)\<rparr>"
          5 "- 5"]
    set_scan_range_unchecked [of "stub_controller\<lparr>wavelength_controller := None\<rparr>" 5 "- 5"]
  by (simp add: present_def init_def stub_controller_def stub_actuator_def)

subsection \<open>The stopping test and \<open>reset\<close>\<close>

text \<open>
  C8. When \<open>running\<close> is already false, \<open>still_scanning\<close> returns false and leaves
  the whole state, \<open>current_t\<close> and \<open>running\<close> included, as it was.
\<close>

theorem still_scanning_stopped:
  assumes "running s = False"
  shows "still_scanning s = (Inr False, s)"
  using assms by (simp add: still_scanning_def)

theorem still_scanning_stopped_witness:
  "still_scanning (stub_controller\<lparr>current_t := 7\<rparr>)
     = (Inr False, stub_controller\<lparr>current_t := 7\<rparr>)
   \<and> still_scanning (stub_controller\<lparr>current_t := 101\<rparr>)
     = (Inr False, stub_controller\<lparr>current_t := 101\<rparr>)"
  using still_scanning_stopped [of "stub_controller\<lparr>current_t := 7\<rparr>"]
    still_scanning_stopped [of "stub_controller\<lparr>current_t := 101\<rparr>"]
  by (simp add: stub_controller_def)

text \<open>
  C7. \<open>reset\<close> empties \<open>scanned_raw_counts\<close> and \<open>scanned_count_rate\<close> and changes
  no other field: the sweep index, the position, the running flag, the scan range, the
  step size and every other field keep their values.
\<close>

theorem reset_clears_results_only:
  "fst (reset s) = Inr ()
   \<and> scanned_raw_counts (snd (reset s)) = []
   \<and> scanned_count_rate (snd (reset s)) = []
   \<and> current_t (snd (reset s)) = current_t s
   \<and> current_v (snd (reset s)) = current_v s
   \<and> running (snd (reset s)) = running s
   \<and> vmin (snd (reset s)) = vmin s
   \<and> vmax (snd (reset s)) = vmax s
   \<and> step_size (snd (reset s)) = step_size s
   \<and> tmax (snd (reset s)) = tmax s
   \<and> raster_line_pause (snd (reset s)) = raster_line_pause s
   \<and> wavelength_controller (snd (reset s)) = wavelength_controller s
   \<and> rate_counter (snd (reset s)) = rate_counter s
   \<and> num_daq_batches (snd (reset s)) = num_daq_batches s
   \<and> snd (reset s) = s\<lparr>scanned_raw_counts := [], scanned_count_rate := []\<rparr>"
  by (simp add: reset_def)

theorem reset_clears_results_only_witness:
  "snd (reset (stub_controller\<lparr>scanned_raw_counts := [[(3, 1)]],
        scanned_count_rate := [[3]], current_t := 1, current_v := Some 2, running := True\<rparr>))
     = stub_controller\<lparr>current_t := 1, current_v := Some 2, running := True\<rparr>"
  using reset_clears_results_only
      [of "stub_controller\<lparr>scanned_raw_counts := [[(3, 1)]],
        scanned_count_rate := [[3]], current_t := 1, current_v := Some 2, running := True\<rparr>"]
  by (simp add: stub_controller_def)

subsection \<open>Stepping the position\<close>

text \<open>
  What \<open>move_v\<close> does once \<open>current_v\<close> is defined: it returns normally, the
  position has advanced by the step, and the actuator was commanded to the new position
  exactly when it is present and the new position is at most \<open>vmax\<close>. The lower
  bound \<open>vmin\<close> is not looked at.
\<close>

lemma move_v_defined:
  assumes "current_v s = Some v" and "wavelength_controller s = Some a"
  shows "fst (move_v s) = Inr ()
     \<and> current_v (snd (move_v s)) = Some (v + step_size s)
     \<and> map_option commanded (wavelength_controller (snd (move_v s))) =
         Some (if truthy a \<and> v + step_size s \<le> vmax s
               then commanded a @ [v + step_size s] else commanded a)"
  using assms
  by (simp add: move_v_def present_def wc_call_def go_to_position_def go_to_voltage_def
      check_allowed_position_def Let_def)

text \<open>
  C1. \<open>move_v\<close> advances the position by the step, but it tests the new position
  against \<open>vmax\<close> only, where \<open>go_to_v\<close> tests both bounds. On a controller built
  for an actuator that allows -10 to 10, after \<open>set_to_starting_position\<close> and
  \<open>set_scan_range(0, 10)\<close>, one step takes the position from -10 to -9.5, below
  \<open>vmin = 0\<close>, and the actuator is commanded to go there all the same.
\<close>

theorem move_v_commands_below_vmin:
  "init stub_sampler (Some wide_actuator) = Inr wide_controller
   \<and> run [SetToStartingPosition, SetScanRange 0 10] wide_controller =
       wide_controller\<lparr>current_v := Some (- 10), vmin := 0, vmax := 10,
         wavelength_controller :=
           Some (wide_actuator\<lparr>commanded := [- 10], current_voltage := - 10\<rparr>)\<rparr>
   \<and> move_v (run [SetToStartingPosition, SetScanRange 0 10] wide_controller) =
       (Inr (), wide_controller\<lparr>current_v := Some (- 19 / 2), vmin := 0, vmax := 10,
         wavelength_controller :=
           Some (wide_actuator\<lparr>commanded := [- 10, - 19 / 2], current_voltage := - 19 / 2\<rparr>)\<rparr>)"
  by (simp add: init_def wide_controller_def wide_actuator_def set_to_starting_position_def
      set_scan_range_def move_v_def present_def wc_call_def wc_check_def go_to_position_def
      go_to_voltage_def check_allowed_position_def Let_def)

text \<open>
  C6. When \<open>move_v\<close> commands a move and the actuator rejects it as out of range,
  \<open>move_v\<close> still returns normally: the error is caught. The position has advanced by
  the step, the command is in the actuator's log, and the actuator has not moved.
\<close>

theorem move_v_swallows_rejection:
  assumes "current_v s = Some v"
    and "wavelength_controller s = Some a" and "truthy a"
    and "v + step_size s \<le> vmax s"
    and "check_allowed_position a (v + step_size s) = Inl ValueError"
  shows "move_v s =
     (Inr (), s\<lparr>current_v := Some (v + step_size s),
                 wavelength_controller :=
                   Some (a\<lparr>commanded := commanded a @ [v + step_size s]\<rparr>)\<rparr>)"
  using assms
  by (simp add: move_v_def present_def wc_call_def go_to_position_def go_to_voltage_def Let_def)

theorem move_v_swallows_rejection_witness:
  "run [SetToStartingPosition, SetStepSize (- 1 / 2)] stub_controller =
     stub_controller\<lparr>current_v := Some 0, step_size := - 1 / 2,
       wavelength_controller := Some (stub_actuator\<lparr>commanded := [0]\<rparr>)\<rparr>
   \<and> move_v (run [SetToStartingPosition, SetStepSize (- 1 / 2)] stub_controller) =
     (Inr (), stub_controller\<lparr>current_v := Some (- 1 / 2), step_size := - 1 / 2,
       wavelength_controller := Some (stub_actuator\<lparr>commanded := [0, - 1 / 2]\<rparr>)\<rparr>)"
  using move_v_swallows_rejection
      [of "run [SetToStartingPosition, SetStepSize (- 1 / 2)] stub_controller" 0
          "stub_actuator\<lparr>commanded := [0]\<rparr>"]
  by (simp add: stub_controller_def stub_actuator_def set_to_starting_position_def
      set_step_size_def present_def wc_call_def go_to_voltage_def check_allowed_position_def
      Let_def)

subsection \<open>Float arithmetic on the examples\<close>

lemmas float_eval =
  double_def ulp_def binade_def round_half_even_def fadd_def fsub_def fmul_def fdiv_def
  binade_hi.simps binade_lo.simps Let_def

lemma upt_small: "[0..<2] = [0, Suc 0]" "[0..<4] = [0, Suc 0, 2, 3]"
  by (simp_all add: upt_rec numeral_eq_Suc)

lemma double_06: "double (6 / 10) = 5404319552844595 / 9007199254740992"
  by (simp add: float_eval)

lemma double_11: "double (11 / 10) = 2476979795053773 / 2251799813685248"
  by (simp add: float_eval)

lemma sleep_default: "sleep (double (3 / 20)) = Inr ()"
  by (simp add: sleep_def float_eval)

lemma float_ops_0_2_half:
  "fsub 2 0 = 2" "fdiv 2 (1 / 2) = 4" "fadd 0 (1 / 2) = 1 / 2" "fsub (1 / 2) 0 = 1 / 2"
  "fmul 2 (1 / 2) = 1" "fadd 0 1 = 1" "fmul 3 (1 / 2) = 3 / 2" "fadd 0 (3 / 2) = 3 / 2"
  by (simp_all add: float_eval)

lemma arange_0_2_half: "arange 0 2 (1 / 2) = Inr [0, 1 / 2, 1, 3 / 2]"
  by (simp add: arange_def Let_def float_ops_0_2_half upt_small)

lemma float_ops_06_11_half:
  "fsub (2476979795053773 / 2251799813685248) (5404319552844595 / 9007199254740992)
     = 4503599627370497 / 9007199254740992"
  "fdiv (4503599627370497 / 9007199254740992) (1 / 2) = 4503599627370497 / 4503599627370496"
  "fadd (5404319552844595 / 9007199254740992) (1 / 2) = 2476979795053773 / 2251799813685248"
  by (simp_all add: float_eval)

lemma arange_06_11_half:
  "arange (5404319552844595 / 9007199254740992) (2476979795053773 / 2251799813685248) (1 / 2)
     = Inr [5404319552844595 / 9007199254740992, 2476979795053773 / 2251799813685248]"
  by (simp add: arange_def Let_def float_ops_06_11_half upt_small)

subsection \<open>The line scan\<close>

lemma map_upt_Suc_shift: "map f [0..<Suc n] = f 0 # map (\<lambda>k. f (Suc k)) [0..<n]"
  by (simp add: map_upt_Suc del: upt_Suc)

text \<open>
  The loop over values that a present actuator accepts: for each value in turn one move
  there and then one sample, taken while the actuator stands at that value.
\<close>

lemma scan_loop_accepted:
  assumes "wavelength_controller s = Some a" and "truthy a"
    and "\<forall>v \<in> set vals. check_allowed_position a v = Inr ()"
  shows "scan_loop vals raw s =
     (Inr (raw @ map (\<lambda>k. readout (rate_counter s) (calls (rate_counter s) + k)
                          (num_daq_batches s) (Some (vals ! k))) [0..<length vals]),
      s\<lparr>wavelength_controller :=
           Some (a\<lparr>commanded := commanded a @ vals,
                   current_voltage := last (current_voltage a # vals)\<rparr>),
        rate_counter := (rate_counter s)\<lparr>calls := calls (rate_counter s) + length vals\<rparr>\<rparr>)"
  using assms
proof (induction vals arbitrary: raw s a)
  case Nil
  then show ?case by simp
next
  case (Cons v vals)
  let ?d = "readout (rate_counter s) (calls (rate_counter s)) (num_daq_batches s) (Some v)"
  let ?a1 = "a\<lparr>commanded := commanded a @ [v], current_voltage := v\<rparr>"
  let ?s2 = "s\<lparr>wavelength_controller := Some ?a1,
               rate_counter := (rate_counter s)\<lparr>calls := Suc (calls (rate_counter s))\<rparr>\<rparr>"
  have ok: "check_allowed_position a v = Inr ()"
    using Cons.prems by simp
  have rest: "\<forall>w \<in> set vals. check_allowed_position ?a1 w = Inr ()"
    using Cons.prems by (simp add: check_allowed_position_def)
  have unroll: "scan_loop (v # vals) raw s = scan_loop vals (raw @ [?d]) ?s2"
    using Cons.prems(1,2) ok
    by (simp add: present_def wc_call_def go_to_voltage_accepted sample_counts_def
        rc_sample_counts_def)
  have ih: "scan_loop vals (raw @ [?d]) ?s2 =
     (Inr ((raw @ [?d]) @ map (\<lambda>k. readout (rate_counter ?s2) (calls (rate_counter ?s2) + k)
                                  (num_daq_batches ?s2) (Some (vals ! k))) [0..<length vals]),
      ?s2\<lparr>wavelength_controller :=
             Some (?a1\<lparr>commanded := commanded ?a1 @ vals,
                       current_voltage := last (current_voltage ?a1 # vals)\<rparr>),
           rate_counter :=
             (rate_counter ?s2)\<lparr>calls := calls (rate_counter ?s2) + length vals\<rparr>\<rparr>)"
    by (rule Cons.IH) (use Cons.prems(2) rest in simp_all)
  show ?case
    unfolding unroll ih by (simp add: map_upt_Suc_shift del: upt_Suc)
qed

text \<open>
  \<open>scan_axis\<close> on values that a present actuator accepts, for any function in the
  place of \<open>np.arange\<close>.
\<close>

lemma scan_axis_accepted:
  assumes "wavelength_controller s = Some a" and "truthy a"
    and "sleep (raster_line_pause s) = Inr ()"
    and "np_arange min' max' step = Inr vals"
    and "check_allowed_position a min' = Inr ()"
    and "\<forall>v \<in> set vals. check_allowed_position a v = Inr ()"
  shows "scan_axis_with np_arange min' max' step s =
     (Inr (map (\<lambda>k. readout (rate_counter s) (calls (rate_counter s) + k)
                     (num_daq_batches s) (Some (vals ! k))) [0..<length vals]),
      s\<lparr>wavelength_controller :=
           Some (a\<lparr>commanded := commanded a @ min' # vals,
                   current_voltage := last (min' # vals)\<rparr>),
        rate_counter := (rate_counter s)\<lparr>calls := calls (rate_counter s) + length vals\<rparr>\<rparr>)"
proof -
  let ?a1 = "a\<lparr>commanded := commanded a @ [min'], current_voltage := min'\<rparr>"
  let ?s1 = "s\<lparr>wavelength_controller := Some ?a1\<rparr>"
  have first: "wc_call go_to_voltage min' s = (Inr (), ?s1)"
    using assms(1,5) by (simp add: wc_call_def go_to_voltage_accepted)
  have acc: "\<forall>v \<in> set vals. check_allowed_position ?a1 v = Inr ()"
    using assms(6) by (simp add: check_allowed_position_def)
  have loop: "scan_loop vals [] ?s1 =
     (Inr ([] @ map (\<lambda>k. readout (rate_counter ?s1) (calls (rate_counter ?s1) + k)
                         (num_daq_batches ?s1) (Some (vals ! k))) [0..<length vals]),
      ?s1\<lparr>wavelength_controller :=
             Some (?a1\<lparr>commanded := commanded ?a1 @ vals,
                       current_voltage := last (current_voltage ?a1 # vals)\<rparr>),
           rate_counter :=
             (rate_counter ?s1)\<lparr>calls := calls (rate_counter ?s1) + length vals\<rparr>\<rparr>)"
    by (rule scan_loop_accepted) (use assms(2) acc in simp_all)
  have "scan_axis_with np_arange min' max' step s = scan_loop vals [] ?s1"
    using assms(3,4) by (simp add: scan_axis_with_def first)
  then show ?thesis
    using loop by simp
qed

text \<open>
  C4. \<open>scan_axis\<close> visits exactly the values that \<open>np.arange(min, max, step)\<close>
  returns, in order, whatever they are: when the actuator is present and accepts
  \<open>min\<close> and each of them, and the pause is one that \<open>time.sleep\<close> accepts, then
  after the settling move to \<open>min\<close> the actuator is commanded to each value in turn,
  one sample is taken while it stands there, and the samples are returned in that order.
  This holds for every function in the place of \<open>np.arange\<close>. For
  \<open>scan_axis(0, 2, 0.5)\<close> the values are 0, 0.5, 1, 1.5, with four samples. In float
  arithmetic the values of \<open>np.arange\<close> are not always strictly below \<open>max\<close>.
\<close>

theorem scan_axis_visits_arange:
  assumes "wavelength_controller s = Some a" and "truthy a"
    and "sleep (raster_line_pause s) = Inr ()"
    and "np_arange min' max' step = Inr vals"
    and "check_allowed_position a min' = Inr ()"
    and "\<forall>v \<in> set vals. check_allowed_position a v = Inr ()"
  shows "scan_axis_with np_arange min' max' step s =
     (Inr (map (\<lambda>k. readout (rate_counter s) (calls (rate_counter s) + k)
                     (num_daq_batches s) (Some (vals ! k))) [0..<length vals]),
      s\<lparr>wavelength_controller :=
           Some (a\<lparr>commanded := commanded a @ min' # vals,
                   current_voltage := last (min' # vals)\<rparr>),
        rate_counter := (rate_counter s)\<lparr>calls := calls (rate_counter s) + length vals\<rparr>\<rparr>)"
  using assms by (rule scan_axis_accepted)

theorem scan_axis_visits_arange_witness:
  "arange 0 2 (1 / 2) = Inr [0, 1 / 2, 1, 3 / 2]
   \<and> scan_axis 0 2 (1 / 2) stub_controller =
     (Inr [(0, 1), (1, 1), (2, 1), (3, 1)],
      stub_controller\<lparr>
        wavelength_controller :=
          Some (stub_actuator\<lparr>commanded := [0, 0, 1 / 2, 1, 3 / 2], current_voltage := 3 / 2\<rparr>),
        rate_counter := stub_sampler\<lparr>calls := 4\<rparr>\<rparr>)"
  using scan_axis_visits_arange
      [of stub_controller stub_actuator arange 0 2 "1 / 2" "[0, 1 / 2, 1, 3 / 2]"]
    arange_0_2_half sleep_default
  by (simp add: scan_axis_def stub_controller_def stub_actuator_def stub_sampler_def
      check_allowed_position_def upt_small)

text \<open>
  The values 0.6 and 1.1 are the floats \<open>5404319552844595 / 2 ^ 53\<close> and
  \<open>2476979795053773 / 2 ^ 51\<close>. The float difference 1.1 - 0.6 is just above 0.5, so
  \<open>np.arange(0.6, 1.1, 0.5)\<close> has two values, and the float sum 0.6 + 0.5 is 1.1:
  \<open>scan_axis(0.6, 1.1, 0.5)\<close> visits \<open>max\<close> itself and samples there.
\<close>

theorem scan_axis_visits_max:
  "double (6 / 10) = 5404319552844595 / 9007199254740992
   \<and> double (11 / 10) = 2476979795053773 / 2251799813685248
   \<and> scan_axis (double (6 / 10)) (double (11 / 10)) (1 / 2) stub_controller =
     (Inr [(1, 1), (2, 1)],
      stub_controller\<lparr>
        wavelength_controller :=
          Some (stub_actuator\<lparr>commanded := [double (6 / 10), double (6 / 10), double (11 / 10)],
                  current_voltage := double (11 / 10)\<rparr>),
        rate_counter := stub_sampler\<lparr>calls := 2\<rparr>\<rparr>)
   \<and> \<not> last [double (6 / 10), double (6 / 10), double (11 / 10)] < double (11 / 10)"
proof -
  have loop: "scan_loop [5404319552844595 / 9007199254740992, 2476979795053773 / 2251799813685248] []
      (stub_controller\<lparr>wavelength_controller :=
         Some (stub_actuator\<lparr>commanded := [5404319552844595 / 9007199254740992],
                 current_voltage := 5404319552844595 / 9007199254740992\<rparr>)\<rparr>) =
     (Inr [(1, 1), (2, 1)],
      stub_controller\<lparr>
        wavelength_controller :=
          Some (stub_actuator\<lparr>commanded := [5404319552844595 / 9007199254740992,
                    5404319552844595 / 9007199254740992, 2476979795053773 / 2251799813685248],
                  current_voltage := 2476979795053773 / 2251799813685248\<rparr>),
        rate_counter := stub_sampler\<lparr>calls := 2\<rparr>\<rparr>)"
    by (simp add: stub_controller_def stub_actuator_def stub_sampler_def present_def wc_call_def
        go_to_voltage_def check_allowed_position_def sample_counts_def rc_sample_counts_def)
  show ?thesis
    unfolding double_06 double_11
    using loop sleep_default
    by (simp add: scan_axis_def scan_axis_with_def arange_06_11_half wc_call_def go_to_voltage_def
        check_allowed_position_def stub_controller_def stub_actuator_def)
qed

text \<open>
  Two more runs of \<open>np.arange\<close> where rounding shows. For (1.0, 1.3, 0.1) the float
  quotient is just above 3, so there are four values, and the last,
  1.3000000000000003, is above \<open>max\<close>. For (0, 1.1, 0.1) the float quotient is
  exactly 11, so there are 11 values, where the quotient of the two floats as real
  numbers is just above 11.
\<close>

lemma float_ops_1_13_tenth:
  "double (13 / 10) = 5854679515581645 / 4503599627370496"
  "double (1 / 10) = 3602879701896397 / 36028797018963968"
  "fsub (5854679515581645 / 4503599627370496) 1 = 1351079888211149 / 4503599627370496"
  "fdiv (1351079888211149 / 4503599627370496) (3602879701896397 / 36028797018963968)
     = 6755399441055745 / 2251799813685248"
  "fadd 1 (3602879701896397 / 36028797018963968) = 2476979795053773 / 2251799813685248"
  "fsub (2476979795053773 / 2251799813685248) 1 = 225179981368525 / 2251799813685248"
  "fmul 2 (225179981368525 / 2251799813685248) = 225179981368525 / 1125899906842624"
  "fadd 1 (225179981368525 / 1125899906842624) = 1351079888211149 / 1125899906842624"
  "fmul 3 (225179981368525 / 2251799813685248) = 675539944105575 / 2251799813685248"
  "fadd 1 (675539944105575 / 2251799813685248) = 2927339757790823 / 2251799813685248"
  by (simp_all add: float_eval)

lemma arange_1_13_tenth:
  "arange 1 (double (13 / 10)) (double (1 / 10)) =
     Inr [1, 2476979795053773 / 2251799813685248, 1351079888211149 / 1125899906842624,
          2927339757790823 / 2251799813685248]"
  "double (13 / 10) < 2927339757790823 / 2251799813685248"
  by (simp_all add: arange_def Let_def float_ops_1_13_tenth upt_small)

lemma float_ops_0_11_tenth:
  "fsub (2476979795053773 / 2251799813685248) 0 = 2476979795053773 / 2251799813685248"
  "fdiv (2476979795053773 / 2251799813685248) (3602879701896397 / 36028797018963968) = 11"
  "11 < (2476979795053773 / 2251799813685248) / (3602879701896397 / 36028797018963968 :: real)"
  by (simp_all add: float_eval)

lemma arange_0_11_tenth:
  "map_sum id length (arange 0 (double (11 / 10)) (double (1 / 10))) = Inr 11"
  by (simp add: arange_def Let_def double_11 float_ops_1_13_tenth(2) float_ops_0_11_tenth)

text \<open>
  Where \<open>scan_axis\<close> raises instead: without an actuator, the unguarded first move is
  an attribute error; an actuator that rejects a value raises its range error; a
  negative pause is a value error of \<open>time.sleep\<close>, after the first move; a zero
  step is a division by zero.
\<close>

lemma scan_axis_raises:
  "fst (scan_axis 0 2 (1 / 2) (stub_controller\<lparr>wavelength_controller := None\<rparr>))
     = Inl AttributeError"
  "fst (scan_axis 3 4 1 stub_controller) = Inl ValueError"
  "scan_axis 0 2 (1 / 2) (stub_controller\<lparr>raster_line_pause := - 1\<rparr>) =
     (Inl ValueError,
      stub_controller\<lparr>raster_line_pause := - 1,
        wavelength_controller := Some (stub_actuator\<lparr>commanded := [0]\<rparr>)\<rparr>)"
  "fst (scan_axis 0 2 0 stub_controller) = Inl ZeroDivisionError"
proof -
  note defs = scan_axis_def scan_axis_with_def wc_call_def go_to_voltage_def
    check_allowed_position_def stub_controller_def stub_actuator_def
  show "fst (scan_axis 0 2 (1 / 2) (stub_controller\<lparr>wavelength_controller := None\<rparr>))
     = Inl AttributeError"
    by (simp add: defs)
  show "fst (scan_axis 3 4 1 stub_controller) = Inl ValueError"
    by (simp add: defs)
  show "scan_axis 0 2 (1 / 2) (stub_controller\<lparr>raster_line_pause := - 1\<rparr>) =
     (Inl ValueError,
      stub_controller\<lparr>raster_line_pause := - 1,
        wavelength_controller := Some (stub_actuator\<lparr>commanded := [0]\<rparr>)\<rparr>)"
    by (simp add: defs sleep_def)
  show "fst (scan_axis 0 2 0 stub_controller) = Inl ZeroDivisionError"
    by (simp add: defs sleep_default arange_def)
qed

subsection \<open>What the device calls leave alone\<close>

text \<open>
  The calls on the actuator and on the rate counter assign the fields
  \<open>wavelength_controller\<close> and \<open>rate_counter\<close> only. Whatever \<open>f\<close> reads neither
  of them has the same value after the loop, after \<open>scan_axis\<close> and after a sweep's
  line scan, whether they return or raise.
\<close>

lemma wc_call_keeps:
  assumes "\<And>s x. f (s\<lparr>wavelength_controller := x\<rparr>) = f s"
  shows "f (snd (wc_call m v s)) = f s"
  by (simp add: wc_call_def assms split: option.splits prod.splits)

lemma sample_counts_keeps:
  assumes "\<And>s y. f (s\<lparr>rate_counter := y\<rparr>) = f s"
  shows "f (snd (sample_counts s)) = f s"
  by (simp add: sample_counts_def assms split: prod.splits)

lemma scan_loop_keeps:
  assumes wc: "\<And>s x. f (s\<lparr>wavelength_controller := x\<rparr>) = f s"
    and rc: "\<And>s y. f (s\<lparr>rate_counter := y\<rparr>) = f s"
  shows "f (snd (scan_loop vals raw s)) = f s"
proof (induction vals arbitrary: raw s)
  case Nil
  show ?case by simp
next
  case (Cons v vals)
  show ?case
  proof (cases "present (wavelength_controller s)")
    case False
    obtain r s2 where sc: "sample_counts s = (r, s2)"
      by (cases "sample_counts s")
    have "f s2 = f s"
      using sample_counts_keeps [of f s, OF rc] sc by simp
    then show ?thesis
      using False sc Cons.IH by (cases r) simp_all
  next
    case True
    obtain r1 s1 where go: "wc_call go_to_voltage v s = (r1, s1)"
      by (cases "wc_call go_to_voltage v s")
    have f1: "f s1 = f s"
      using wc_call_keeps [of f go_to_voltage v s, OF wc] go by simp
    obtain r s2 where sc: "sample_counts s1 = (r, s2)"
      by (cases "sample_counts s1")
    have "f s2 = f s1"
      using sample_counts_keeps [of f s1, OF rc] sc by simp
    then show ?thesis
      using True go f1 sc Cons.IH by (cases r1; cases r) simp_all
  qed
qed

lemma scan_axis_with_keeps:
  assumes wc: "\<And>s x. f (s\<lparr>wavelength_controller := x\<rparr>) = f s"
    and rc: "\<And>s y. f (s\<lparr>rate_counter := y\<rparr>) = f s"
  shows "f (snd (scan_axis_with np_arange min' max' step s)) = f s"
proof -
  obtain r1 s1 where go: "wc_call go_to_voltage min' s = (r1, s1)"
    by (cases "wc_call go_to_voltage min' s")
  have f1: "f s1 = f s"
    using wc_call_keeps [of f go_to_voltage min' s, OF wc] go by simp
  show ?thesis
    using go f1 scan_loop_keeps [of f _ "[]" s1, OF wc rc]
    by (cases r1; cases "sleep (raster_line_pause s1)"; cases "np_arange min' max' step")
      (simp_all add: scan_axis_with_def)
qed

lemma scan_axis_keeps:
  assumes wc: "\<And>s x. f (s\<lparr>wavelength_controller := x\<rparr>) = f s"
    and rc: "\<And>s y. f (s\<lparr>rate_counter := y\<rparr>) = f s"
  shows "f (snd (scan_axis min' max' step s)) = f s"
  unfolding scan_axis_def using wc rc by (rule scan_axis_with_keeps)

lemma count_rates_eq:
  "count_rates ds s = (Inr (map (rate_of (rate_counter s)) ds), s)"
  by (induction ds) (simp_all add: sample_count_rate_def rc_sample_count_rate_def)

subsection \<open>Sweeps\<close>

text \<open>
  A sweep that returns has counted itself and has not touched the other inputs of the
  stopping test.
\<close>

lemma scan_v_returns:
  assumes "scan_v s = (Inr (), s')"
  shows "current_t s' = current_t s + 1 \<and> running s' = running s \<and> tmax s' = tmax s"
proof -
  obtain r s1 where ax: "scan_axis (vmin s) (vmax s) (step_size s) s = (r, s1)"
    by (cases "scan_axis (vmin s) (vmax s) (step_size s) s")
  have "current_t s1 = current_t s" "running s1 = running s" "tmax s1 = tmax s"
    using scan_axis_keeps [of current_t "vmin s" "vmax s" "step_size s" s]
      scan_axis_keeps [of running "vmin s" "vmax s" "step_size s" s]
      scan_axis_keeps [of tmax "vmin s" "vmax s" "step_size s" s] ax
    by simp_all
  then show ?thesis
    using assms ax by (cases r) (auto simp: scan_v_def count_rates_eq Let_def)
qed

lemma run_sweeps_returns:
  "run_sweeps n s = (Inr (), s') \<Longrightarrow>
     current_t s' = current_t s + int n \<and> running s' = running s \<and> tmax s' = tmax s"
proof (induction n arbitrary: s)
  case 0
  then show ?case by simp
next
  case (Suc n)
  obtain r s1 where sv: "scan_v s = (r, s1)"
    by (cases "scan_v s")
  show ?case
  proof (cases r)
    case (Inl e)
    then show ?thesis
      using Suc.prems sv by simp
  next
    case (Inr u)
    then have "run_sweeps n s1 = (Inr (), s')"
      using Suc.prems sv by simp
    from Suc.IH [OF this] scan_v_returns [of s s1] sv Inr show ?thesis
      by simp
  qed
qed

text \<open>On a sweepable controller a sweep returns, and the controller is sweepable again.\<close>

lemma scan_v_sweepable:
  assumes "sweepable s"
  shows "fst (scan_v s) = Inr () \<and> sweepable (snd (scan_v s))"
proof -
  obtain a where a: "wavelength_controller s = Some a"
    using assms by (auto simp: sweepable_def split: option.splits)
  obtain vals where vals: "arange (vmin s) (vmax s) (step_size s) = Inr vals"
    using assms a by (auto simp: sweepable_def split: sum.splits)
  have b: "truthy a" "sleep (raster_line_pause s) = Inr ()"
    "check_allowed_position a (vmin s) = Inr ()"
    "\<forall>v \<in> set vals. check_allowed_position a v = Inr ()"
    using assms a vals by (simp_all add: sweepable_def list_all_iff)
  have "scan_axis (vmin s) (vmax s) (step_size s) s =
     (Inr (map (\<lambda>k. readout (rate_counter s) (calls (rate_counter s) + k)
                     (num_daq_batches s) (Some (vals ! k))) [0..<length vals]),
      s\<lparr>wavelength_controller :=
           Some (a\<lparr>commanded := commanded a @ vmin s # vals,
                   current_voltage := last (vmin s # vals)\<rparr>),
        rate_counter := (rate_counter s)\<lparr>calls := calls (rate_counter s) + length vals\<rparr>\<rparr>)"
    unfolding scan_axis_def
    by (rule scan_axis_accepted
        [of s a arange "vmin s" "vmax s" "step_size s" vals, OF a b(1,2) vals b(3,4)])
  then show ?thesis
    using b vals
    by (simp add: scan_v_def count_rates_eq Let_def sweepable_def list_all_iff
        check_allowed_position_def)
qed

lemma run_sweeps_sweepable:
  "sweepable s \<Longrightarrow> fst (run_sweeps n s) = Inr ()"
proof (induction n arbitrary: s)
  case 0
  show ?case by simp
next
  case (Suc n)
  obtain s1 where sv: "scan_v s = (Inr (), s1)" and s1: "sweepable s1"
    using scan_v_sweepable [OF Suc.prems] by (cases "scan_v s") auto
  show ?case
    using sv Suc.IH [OF s1] by simp
qed

text \<open>
  C5. For every \<open>N \<ge> 1\<close>: on a started controller with \<open>current_t = 0\<close> and
  \<open>tmax = N - 1\<close>, once \<open>scan_v\<close> has been called \<open>N\<close> times and has returned each
  time, \<open>still_scanning\<close> returns false and has set \<open>running\<close> to false.
\<close>

theorem sweeps_exhaust_budget:
  assumes "1 \<le> N" and "running s" and "current_t s = 0" and "tmax s = int N - 1"
    and "run_sweeps N s = (Inr (), s')"
  shows "still_scanning s' = (Inr False, s'\<lparr>running := False\<rparr>)
     \<and> running (snd (still_scanning s')) = False"
  using run_sweeps_returns [OF assms(5)] assms(1-4)
  by (simp add: still_scanning_def)

theorem sweeps_exhaust_budget_witness:
  "fst (run_sweeps 2 (snd (start (stub_controller\<lparr>tmax := 1\<rparr>)))) = Inr ()
   \<and> fst (still_scanning (snd (run_sweeps 2 (snd (start (stub_controller\<lparr>tmax := 1\<rparr>))))))
       = Inr False
   \<and> running (snd (still_scanning
        (snd (run_sweeps 2 (snd (start (stub_controller\<lparr>tmax := 1\<rparr>))))))) = False"
proof -
  let ?s = "snd (start (stub_controller\<lparr>tmax := 1\<rparr>))"
  have ok: "fst (run_sweeps 2 ?s) = Inr ()"
    by (rule run_sweeps_sweepable)
      (simp add: sweepable_def start_def stub_controller_def stub_actuator_def
        sleep_default arange_0_2_half check_allowed_position_def)
  then have "run_sweeps 2 ?s = (Inr (), snd (run_sweeps 2 ?s))"
    by (simp add: prod_eq_iff)
  from sweeps_exhaust_budget [of 2 ?s "snd (run_sweeps 2 ?s)", OF _ _ _ _ this] ok
  show ?thesis
    by (simp add: start_def stub_controller_def)
qed

subsection \<open>The position before the first \<open>set_to_starting_position\<close>\<close>

lemma scan_v_keeps_current_v: "current_v (snd (scan_v s)) = current_v s"
proof -
  obtain r s1 where ax: "scan_axis (vmin s) (vmax s) (step_size s) s = (r, s1)"
    by (cases "scan_axis (vmin s) (vmax s) (step_size s) s")
  have "current_v s1 = current_v s"
    using scan_axis_keeps [of current_v "vmin s" "vmax s" "step_size s" s] ax by simp
  then show ?thesis
    using ax by (cases r) (simp_all add: scan_v_def count_rates_eq Let_def)
qed

text \<open>No method but \<open>set_to_starting_position\<close> defines a \<open>current_v\<close> that is missing.\<close>

lemma exec_keeps_unset:
  assumes "c \<noteq> SetToStartingPosition" and "current_v s = None"
  shows "current_v (exec c s) = None"
proof (cases c)
  case ScanV
  then show ?thesis
    using assms scan_v_keeps_current_v by simp
next
  case (ScanAxis a b c')
  then show ?thesis
    using assms scan_axis_keeps [of current_v a b c' s] by simp
next
  case (GoToV v)
  then show ?thesis
    using assms wc_call_keeps [of current_v go_to_voltage v s]
    by (auto simp: go_to_v_def split: prod.splits sum.splits error.splits)
next
  case (SampleCountRate d)
  then show ?thesis
    using assms sample_counts_keeps [of current_v s]
    by (auto simp: sample_count_rate_def split: option.splits prod.splits sum.splits)
next
  case SampleCounts
  then show ?thesis
    using assms sample_counts_keeps [of current_v s] by simp
qed (use assms in \<open>simp_all add: stop_def start_def close_def
   set_num_data_samples_per_batch_def set_scan_range_def get_scan_range_def
   get_completed_scan_range_def still_scanning_def move_v_def reset_def
   configure_view_def get_step_size_def set_step_size_def split: sum.splits\<close>)

lemma run_keeps_unset:
  "SetToStartingPosition \<notin> set cs \<Longrightarrow> current_v s = None \<Longrightarrow> current_v (run cs s) = None"
proof (induction cs arbitrary: s)
  case Nil
  then show ?case by simp
next
  case (Cons c cs)
  have "c \<noteq> SetToStartingPosition"
    using Cons.prems(1) by auto
  then have "current_v (exec c s) = None"
    using Cons.prems(2) by (rule exec_keeps_unset)
  then show ?case
    using Cons.IH Cons.prems(1) by simp
qed

lemma set_to_starting_position_defines:
  "current_v (snd (set_to_starting_position s)) = Some (vmin s)
   \<and> vmin (snd (set_to_starting_position s)) = vmin s
   \<and> vmax (snd (set_to_starting_position s)) = vmax s"
  using wc_call_keeps [of current_v go_to_voltage "vmin s" "s\<lparr>current_v := Some (vmin s)\<rparr>"]
    wc_call_keeps [of vmin go_to_voltage "vmin s" "s\<lparr>current_v := Some (vmin s)\<rparr>"]
    wc_call_keeps [of vmax go_to_voltage "vmin s" "s\<lparr>current_v := Some (vmin s)\<rparr>"]
  by (simp add: set_to_starting_position_def Let_def)

text \<open>
  C10. \<open>__init__\<close> does not assign \<open>current_v\<close>. On a controller it has built, and
  after any calls of methods other than \<open>set_to_starting_position\<close>,
  \<open>get_completed_scan_range\<close> and \<open>move_v\<close> raise an attribute error and change
  nothing. \<open>set_to_starting_position\<close> then defines \<open>current_v\<close> as \<open>vmin\<close>, also
  when its own move is rejected, and \<open>get_completed_scan_range\<close> returns.
\<close>

theorem current_v_unset_until_start_position:
  assumes "init rc wc = Inr c" and "SetToStartingPosition \<notin> set cs"
    and "s = run cs c" and "s' = snd (set_to_starting_position s)"
  shows "current_v c = None
     \<and> get_completed_scan_range s = (Inl AttributeError, s)
     \<and> move_v s = (Inl AttributeError, s)
     \<and> current_v s' = Some (vmin s)
     \<and> get_completed_scan_range s' = (Inr (vmin s, vmax s, vmin s), s')"
proof -
  have c: "current_v c = None"
    using assms(1) by (auto simp: init_def split: option.splits)
  then have s: "current_v s = None"
    using assms(2,3) by (simp add: run_keeps_unset)
  show ?thesis
    using c s set_to_starting_position_defines [of s] assms(4)
    by (simp add: get_completed_scan_range_def move_v_def)
qed

theorem current_v_unset_until_start_position_witness:
  "init stub_sampler (Some stub_actuator) = Inr stub_controller
   \<and> fst (get_completed_scan_range stub_controller) = Inl AttributeError
   \<and> fst (move_v stub_controller) = Inl AttributeError
   \<and> fst (move_v (run [Start, MoveV, SetScanRange (1 / 2) 1, ScanV, StillScanning]
        stub_controller)) = Inl AttributeError
   \<and> fst (get_completed_scan_range
        (run [Start, MoveV, SetScanRange (1 / 2) 1, ScanV, StillScanning] stub_controller))
       = Inl AttributeError
   \<and> fst (get_completed_scan_range (snd (set_to_starting_position stub_controller)))
       = Inr (0, 2, 0)"
  using current_v_unset_until_start_position
      [of stub_sampler "Some stub_actuator" stub_controller "[]" stub_controller
          "snd (set_to_starting_position stub_controller)"]
    current_v_unset_until_start_position
      [of stub_sampler "Some stub_actuator" stub_controller
          "[Start, MoveV, SetScanRange (1 / 2) 1, ScanV, StillScanning]"
          "run [Start, MoveV, SetScanRange (1 / 2) 1, ScanV, StillScanning] stub_controller"
          "snd (set_to_starting_position
             (run [Start, MoveV, SetScanRange (1 / 2) 1, ScanV, StillScanning] stub_controller))"]
    init_stub
  by (simp add: stub_controller_def)

end
